theory Spec2Isabelle
  imports Complex_Main "HOL-Library.AList" "HOL-Library.Log_Nat"
begin

section \<open>The saloon manager: sessions on billiard tables and dart boards\<close>

text \<open>
  A shallow embedding of the classes \<^verbatim>\<open>Session\<close> and \<^verbatim>\<open>Table\<close> of
  \<^verbatim>\<open>saloon-manager.py\<close>: the timer of one table (start, pause, resume, stop),
  the price of a stopped session, and the dictionaries written to and read from
  \<^verbatim>\<open>tables.json\<close>. The widgets around them are not modelled.
\<close>

subsection \<open>The clock\<close>

text \<open>
  \<^verbatim>\<open>QDateTime\<close> is Qt's; the program only calls it. Qt keeps an instant as a number of
  milliseconds since the epoch, and so does the model.
  \<^verbatim>\<open>a.secsTo(b)\<close> is the millisecond difference divided by 1000 by C++'s division,
  which truncates towards zero; \<^verbatim>\<open>a.addSecs(n)\<close> moves by \<open>n\<close> whole seconds.
  \<^verbatim>\<open>QDateTime.currentDateTime()\<close> reads the wall clock: every operation that calls it
  takes the reading as its first argument. The field \<^verbatim>\<open>start_time\<close> holds \<^verbatim>\<open>None\<close> or
  such a reading, which is never a null \<^verbatim>\<open>QDateTime\<close>: the tests \<^verbatim>\<open>if self.start_time\<close>
  and \<^verbatim>\<open>self.start_time or end_time\<close> tell \<^verbatim>\<open>None\<close> from a reading.
\<close>

type_synonym qdatetime = int

definition secsTo :: "qdatetime \<Rightarrow> qdatetime \<Rightarrow> int" where
  "secsTo a b = (if a \<le> b then (b - a) div 1000 else - ((a - b) div 1000))"

definition addSecs :: "qdatetime \<Rightarrow> int \<Rightarrow> qdatetime" where
  "addSecs a n = a + 1000 * n"

text \<open>
  \<^verbatim>\<open>toString(Qt.ISODate)\<close> prints \<^verbatim>\<open>yyyy-MM-ddTHH:mm:ss\<close>, the local time of the
  instant without its milliseconds. The model does not build the text: \<open>ISODate n\<close>
  stands for the text that names the second \<open>n\<close> since the epoch, and \<open>secs_of\<close> gives
  that second back. The difference of two such seconds is the time between the two
  instants; it is the difference of the two clock faces as printed only while the
  zone's offset from UTC stays the same (no change to or from daylight saving time in
  between), and nothing here is said about the printed faces beyond that.
\<close>

datatype isodate = ISODate (secs_of: int)

definition toString :: "qdatetime \<Rightarrow> isodate" where
  "toString a = ISODate (a div 1000)"

subsection \<open>Floats\<close>

text \<open>
  Python's \<^verbatim>\<open>float\<close> is the IEEE 754 binary64 number, a double. A finite double is
  modelled by the real number it is, and every operation on floats gives the double
  nearest to the exact result, a tie going to the one whose last bit is even:
  \<open>rnd64\<close>. A double has 53 bits: with \<open>2 ^ e \<le> \<bar>x\<bar> < 2 ^ (e + 1)\<close> the doubles
  around \<open>x\<close> are the multiples of \<open>2 ^ (e - 52)\<close>, and below \<open>2 ^ - 1022\<close> those of
  \<open>2 ^ - 1074\<close>. The model has no infinity: a result beyond the largest double,
  about \<open>1.8 * 10 ^ 308\<close>, is outside it. The fields that hold a float, the price
  per hour of a table and the price of a session, hold doubles.
\<close>

definition round_half_even :: "real \<Rightarrow> int" where
  "round_half_even x =
     (let f = \<lfloor>x\<rfloor>; d = x - of_int f
      in if d < 1 / 2 then f
         else if 1 / 2 < d then f + 1
         else if even f then f else f + 1)"

definition pow2 :: "int \<Rightarrow> real" where
  "pow2 i = (if 0 \<le> i then 2 ^ nat i else 1 / 2 ^ nat (- i))"

text \<open>The exponent \<open>e\<close> of a positive number, from the number of bits of an integer.\<close>

definition ilog2 :: "real \<Rightarrow> int" where
  "ilog2 x = (if 1 \<le> x then bitlen \<lfloor>x\<rfloor> - 1 else - bitlen (\<lceil>1 / x\<rceil> - 1))"

definition rnd64 :: "real \<Rightarrow> real" where
  "rnd64 x =
     (if x = 0 then 0
      else let q = pow2 (max (ilog2 \<bar>x\<bar>) (- 1022) - 52)
           in of_int (round_half_even (x / q)) * q)"

text \<open>
  \<open>round_places x n\<close> is \<open>x\<close> rounded to \<open>n\<close> decimal places in exact arithmetic, a tie
  to the even neighbour. Python's \<^verbatim>\<open>round(x, n)\<close> of a float rounds the exact value of
  the double in this way and gives the double nearest to that decimal number.
\<close>

definition round_places :: "real \<Rightarrow> nat \<Rightarrow> real" where
  "round_places x n = of_int (round_half_even (x * 10 ^ n)) / 10 ^ n"

definition py_round :: "real \<Rightarrow> nat \<Rightarrow> real" where
  "py_round x n = rnd64 (round_places x n)"

definition SINGLE_PLAYER_MULTIPLIER :: real where
  "SINGLE_PLAYER_MULTIPLIER = 1 / 2"

subsection \<open>The data classes\<close>

text \<open>
  The fields keep their names, but for \<^verbatim>\<open>start\<close>, \<^verbatim>\<open>end\<close> and \<^verbatim>\<open>member\<close> of a
  session, which would clash with the method \<^verbatim>\<open>start\<close>, with a keyword and with a
  constant of the library.
\<close>

record Session =
  start_str :: isodate
  end_str :: isodate
  seconds :: int
  price :: real
  member_flag :: bool
  players :: int
  member_players :: int
  paying_players :: int

record Table =
  name :: string
  price_per_hour :: real
  table_type :: string
  history :: "Session list"
  start_time :: "qdatetime option"
  paused_seconds :: int
  paused :: bool
  current_players :: int
  current_member_players :: int
  current_paying_players :: int

text \<open>The constructor \<^verbatim>\<open>Table(name, price_per_hour, table_type)\<close> with the defaults of the
  other fields.\<close>

definition new_Table :: "string \<Rightarrow> real \<Rightarrow> string \<Rightarrow> Table" where
  "new_Table n p ty =
     \<lparr>name = n, price_per_hour = p, table_type = ty, history = [],
      start_time = None, paused_seconds = 0, paused = False,
      current_players = 2, current_member_players = 0, current_paying_players = 2\<rparr>"

datatype error = RuntimeError | KeyError | TypeError | Untyped

subsection \<open>The timer\<close>

definition is_running :: "Table \<Rightarrow> bool" where
  "is_running self = (start_time self \<noteq> None \<and> \<not> paused self)"

definition start :: "qdatetime \<Rightarrow> int \<Rightarrow> int \<Rightarrow> Table \<Rightarrow> Table" where
  "start now member_players' paying_players' self =
     (if start_time self = None
      then self\<lparr>start_time := Some now,
                paused_seconds := 0,
                paused := False,
                current_players := member_players' + paying_players',
                current_member_players := member_players',
                current_paying_players := paying_players'\<rparr>
      else self)"

definition pause :: "qdatetime \<Rightarrow> Table \<Rightarrow> Table" where
  "pause now self =
     (case start_time self of
        Some st \<Rightarrow>
          if \<not> paused self
          then self\<lparr>paused_seconds := paused_seconds self + secsTo st now,
                    start_time := None,
                    paused := True\<rparr>
          else self
      | None \<Rightarrow> self)"

definition resume :: "qdatetime \<Rightarrow> Table \<Rightarrow> Table" where
  "resume now self =
     (if paused self then self\<lparr>start_time := Some now, paused := False\<rparr> else self)"

text \<open>
  \<^verbatim>\<open>stop\<close> raises or returns a session, and changes the table: the model returns
  both the outcome and the table as the call leaves it. Past the guard, a table that
  is not paused has a start time; the \<open>None\<close> branch of the elapsed time is never
  taken.
\<close>

definition total_secs_at :: "qdatetime \<Rightarrow> Table \<Rightarrow> int" where
  "total_secs_at end_time self =
     (if paused self then paused_seconds self
      else case start_time self of
             Some st \<Rightarrow> paused_seconds self + secsTo st end_time
           | None \<Rightarrow> paused_seconds self)"

text \<open>
  The price before it is rounded. \<^verbatim>\<open>total_secs / 3600\<close> divides two integers and gives
  the double nearest to the quotient; the product and the quotient that follow are
  operations on doubles, the integer \<^verbatim>\<open>current_paying_players\<close> converted first.
\<close>

definition price_at :: "int \<Rightarrow> Table \<Rightarrow> real" where
  "price_at total_secs self =
     (if current_paying_players self = 0 then 0
      else
        let total_cost = rnd64 (rnd64 (of_int total_secs / 3600) * price_per_hour self)
        in if current_paying_players self = 1
           then rnd64 (total_cost * SINGLE_PLAYER_MULTIPLIER)
           else rnd64 (total_cost / rnd64 (of_int (current_paying_players self))))"

definition stop :: "qdatetime \<Rightarrow> Table \<Rightarrow> (error + Session) \<times> Table" where
  "stop end_time self =
     (if start_time self = None \<and> \<not> paused self then (Inl RuntimeError, self)
      else
        let total_secs = total_secs_at end_time self;
            price' = price_at total_secs self;
            session =
              \<lparr>start_str =
                 toString (addSecs (case start_time self of Some st \<Rightarrow> st | None \<Rightarrow> end_time)
                                   (- total_secs)),
               end_str = toString end_time,
               seconds = total_secs,
               price = py_round price' 2,
               member_flag = (0 < current_member_players self),
               players = current_players self,
               member_players = current_member_players self,
               paying_players = current_paying_players self\<rparr>
        in (Inr session,
            self\<lparr>history := history self @ [session],
                 start_time := None,
                 paused := False,
                 paused_seconds := 0,
                 current_players := 2,
                 current_member_players := 0,
                 current_paying_players := 2\<rparr>))"

subsection \<open>Sequences of operations\<close>

text \<open>
  One session with pauses: \<^verbatim>\<open>start\<close>, then \<^verbatim>\<open>pause\<close> and \<^verbatim>\<open>resume\<close> in turn at the
  given pairs of clock readings, then perhaps a last \<^verbatim>\<open>pause\<close>, then \<^verbatim>\<open>stop\<close>.
\<close>

fun toggles :: "(qdatetime \<times> qdatetime) list \<Rightarrow> Table \<Rightarrow> Table" where
  "toggles [] self = self"
| "toggles ((p, r) # prs) self = toggles prs (resume r (pause p self))"

definition run_session ::
  "qdatetime \<Rightarrow> int \<Rightarrow> int \<Rightarrow> (qdatetime \<times> qdatetime) list \<Rightarrow> qdatetime option \<Rightarrow> qdatetime
     \<Rightarrow> Table \<Rightarrow> (error + Session) \<times> Table" where
  "run_session t0 m p prs last_pause t_stop self =
     (let running = toggles prs (start t0 m p self)
      in stop t_stop (case last_pause of None \<Rightarrow> running | Some lp \<Rightarrow> pause lp running))"

text \<open>
  The time the table of such a session spends running: from the start, or a resume, to
  the next pause, or to the end. \<open>running_secs\<close> counts each of these intervals in
  whole seconds, as \<^verbatim>\<open>secsTo\<close> measures it; \<open>running_msecs\<close> is their length in
  milliseconds.
\<close>

fun running_secs :: "qdatetime \<Rightarrow> (qdatetime \<times> qdatetime) list \<Rightarrow> qdatetime \<Rightarrow> int" where
  "running_secs s [] e = secsTo s e"
| "running_secs s ((p, r) # prs) e = secsTo s p + running_secs r prs e"

fun running_msecs :: "qdatetime \<Rightarrow> (qdatetime \<times> qdatetime) list \<Rightarrow> qdatetime \<Rightarrow> int" where
  "running_msecs s [] e = e - s"
| "running_msecs s ((p, r) # prs) e = (p - s) + running_msecs r prs e"

text \<open>The instant from which the table of such a session runs last.\<close>

definition last_resume :: "qdatetime \<Rightarrow> (qdatetime \<times> qdatetime) list \<Rightarrow> qdatetime" where
  "last_resume s prs = (if prs = [] then s else snd (last prs))"

text \<open>Any sequence of calls, each with the clock reading it is made at. A \<^verbatim>\<open>stop\<close> that
  raises leaves the table as it was, and the sequence goes on.\<close>

datatype op = Start int int | Pause | Resume | Stop

fun apply_op :: "qdatetime \<times> op \<Rightarrow> Table \<Rightarrow> Table" where
  "apply_op (now, Start m p) self = start now m p self"
| "apply_op (now, Pause) self = pause now self"
| "apply_op (now, Resume) self = resume now self"
| "apply_op (now, Stop) self = snd (stop now self)"

definition run :: "(qdatetime \<times> op) list \<Rightarrow> Table \<Rightarrow> Table" where
  "run evs self = fold apply_op evs self"

text \<open>
  A table is idle when it has no session, as the widget tests it
  (\<^verbatim>\<open>has_session\<close> in \<^verbatim>\<open>update_button_states\<close>). The three states of the
  specification: idle, running (a start time, not paused), paused (no start time); a
  table that is paused and has a start time is in none of them.
\<close>

definition is_idle :: "Table \<Rightarrow> bool" where
  "is_idle self = (start_time self = None \<and> \<not> paused self)"

datatype state = Idle | Running | Paused

definition state_of :: "Table \<Rightarrow> state option" where
  "state_of self =
     (case (start_time self, paused self) of
        (None, False) \<Rightarrow> Some Idle
      | (Some st, False) \<Rightarrow> Some Running
      | (None, True) \<Rightarrow> Some Paused
      | (Some st, True) \<Rightarrow> None)"

subsection \<open>The pricing rule as the specification words it\<close>

text \<open>
  The charge for \<open>elapsedSeconds\<close> at \<open>hourlyRate\<close> shared by \<open>payingPlayers\<close>, a
  count that is never negative: nothing when no player pays, half the cost for one,
  an equal share for two or more; rounded to two places. \<open>spec_price\<close> is the rule
  on decimal numbers, in exact arithmetic.
\<close>

definition spec_price :: "int \<Rightarrow> real \<Rightarrow> nat \<Rightarrow> real" where
  "spec_price elapsedSeconds hourlyRate payingPlayers =
     round_places
       (if payingPlayers = 0 then 0
        else
          let totalCost = (of_int elapsedSeconds / 3600) * hourlyRate
          in if payingPlayers = 1 then totalCost * (5 / 10)
             else totalCost / of_nat payingPlayers) 2"

text \<open>
  \<open>spec_charge64\<close> is the same rule before the rounding to two places, with every
  operation on doubles. \<open>nearest_hundredth x k\<close> says what rounding \<open>x\<close> to two places
  means: \<open>k\<close> hundredths is the amount nearest to \<open>x\<close>, and the even one where two are
  equally near.
\<close>

definition spec_charge64 :: "int \<Rightarrow> real \<Rightarrow> nat \<Rightarrow> real" where
  "spec_charge64 elapsedSeconds hourlyRate payingPlayers =
     (if payingPlayers = 0 then 0
      else
        let totalCost = rnd64 (rnd64 (of_int elapsedSeconds / 3600) * hourlyRate)
        in if payingPlayers = 1 then rnd64 (totalCost * (5 / 10))
           else rnd64 (totalCost / rnd64 (of_nat payingPlayers)))"

definition nearest_hundredth :: "real \<Rightarrow> int \<Rightarrow> bool" where
  "nearest_hundredth x k =
     (\<bar>100 * x - of_int k\<bar> < 1 / 2 \<or> \<bar>100 * x - of_int k\<bar> = 1 / 2 \<and> even k)"

subsection \<open>Reading and writing \<^verbatim>\<open>tables.json\<close>\<close>

text \<open>
  The values of Python that a table's dictionary holds. A dictionary is a list of keys
  and values in the order of insertion, no key twice. \<open>PyIso\<close> is the \<^verbatim>\<open>str\<close> that
  \<^verbatim>\<open>toString\<close> printed, \<open>PyQDateTime\<close> the Qt object that \<^verbatim>\<open>asdict\<close> copies.
\<close>

datatype py =
    PyNone
  | PyBool bool
  | PyInt int
  | PyFloat real
  | PyStr string
  | PyIso isodate
  | PyQDateTime qdatetime
  | PyList "py list"
  | PyDict "(string \<times> py) list"

type_synonym pydict = "(string \<times> py) list"

fun truthy :: "py \<Rightarrow> bool" where
  "truthy PyNone = False"
| "truthy (PyBool b) = b"
| "truthy (PyInt i) = (i \<noteq> 0)"
| "truthy (PyFloat x) = (x \<noteq> 0)"
| "truthy (PyStr s) = (s \<noteq> [])"
| "truthy (PyIso a) = True"
| "truthy (PyQDateTime a) = True"
| "truthy (PyList xs) = (xs \<noteq> [])"
| "truthy (PyDict d) = (d \<noteq> [])"

definition has_key :: "pydict \<Rightarrow> string \<Rightarrow> bool" where
  "has_key d k = (k \<in> set (map fst d))"

definition get_or :: "pydict \<Rightarrow> string \<Rightarrow> py \<Rightarrow> py" where
  "get_or d k dflt = (case map_of d k of Some v \<Rightarrow> v | None \<Rightarrow> dflt)"

definition asdict_Session :: "Session \<Rightarrow> pydict" where
  "asdict_Session s =
     [(''start'', PyIso (start_str s)),
      (''end'', PyIso (end_str s)),
      (''seconds'', PyInt (seconds s)),
      (''price'', PyFloat (price s)),
      (''member'', PyBool (member_flag s)),
      (''players'', PyInt (players s)),
      (''member_players'', PyInt (member_players s)),
      (''paying_players'', PyInt (paying_players s))]"

definition asdict_Table :: "Table \<Rightarrow> pydict" where
  "asdict_Table t =
     [(''name'', PyStr (name t)),
      (''price_per_hour'', PyFloat (price_per_hour t)),
      (''table_type'', PyStr (table_type t)),
      (''history'', PyList (map (\<lambda>s. PyDict (asdict_Session s)) (history t))),
      (''start_time'', (case start_time t of None \<Rightarrow> PyNone | Some a \<Rightarrow> PyQDateTime a)),
      (''paused_seconds'', PyInt (paused_seconds t)),
      (''paused'', PyBool (paused t)),
      (''current_players'', PyInt (current_players t)),
      (''current_member_players'', PyInt (current_member_players t)),
      (''current_paying_players'', PyInt (current_paying_players t))]"

text \<open>\<^verbatim>\<open>d.pop(k)\<close> raises on a missing key; \<^verbatim>\<open>asdict\<close> gives every field, so none of the
  four is missing and each \<^verbatim>\<open>pop\<close> deletes.\<close>

definition to_json :: "Table \<Rightarrow> pydict" where
  "to_json self =
     (let d = asdict_Table self;
          d = AList.update ''history''
                (PyList (map (\<lambda>s. PyDict (asdict_Session s)) (history self))) d;
          d = AList.delete ''start_time'' d;
          d = AList.delete ''current_players'' d;
          d = AList.delete ''current_member_players'' d;
          d = AList.delete ''current_paying_players'' d
      in d)"

text \<open>The three keys that \<^verbatim>\<open>from_json\<close> adds to the copy of an old session.\<close>

definition session_data_of :: "pydict \<Rightarrow> pydict" where
  "session_data_of s =
     (let session_data = s;
          session_data =
            (if \<not> has_key session_data ''players''
             then AList.update ''players'' (PyInt 2) session_data else session_data);
          session_data =
            (if \<not> has_key session_data ''member_players''
             then AList.update ''member_players''
                    (PyInt (if truthy (get_or session_data ''member'' (PyBool False)) then 2 else 0))
                    session_data
             else session_data);
          session_data =
            (if \<not> has_key session_data ''paying_players''
             then AList.update ''paying_players''
                    (PyInt (if truthy (get_or session_data ''member'' (PyBool False)) then 0 else 2))
                    session_data
             else session_data)
      in session_data)"

text \<open>
  \<^verbatim>\<open>Session(**session_data)\<close>: a \<^verbatim>\<open>TypeError\<close> for a key that is no field and for a
  missing field that has no default. Python stores the values unchecked; the record of
  the model holds values of the declared types only, and a dictionary with a value of
  another type is outside the model (\<open>Untyped\<close>, which is no exception of Python's).
\<close>

definition Session_fields :: "string list" where
  "Session_fields =
     [''start'', ''end'', ''seconds'', ''price'', ''member'', ''players'',
      ''member_players'', ''paying_players'']"

definition Session_kwargs :: "pydict \<Rightarrow> error + Session" where
  "Session_kwargs d =
     (if \<not> list_all (\<lambda>k. k \<in> set Session_fields) (map fst d) then Inl TypeError
      else if \<not> list_all (has_key d) [''start'', ''end'', ''seconds'', ''price'', ''member'']
      then Inl TypeError
      else
        case (get_or d ''start'' PyNone, get_or d ''end'' PyNone, get_or d ''seconds'' PyNone,
              get_or d ''price'' PyNone, get_or d ''member'' PyNone,
              get_or d ''players'' (PyInt 2), get_or d ''member_players'' (PyInt 0),
              get_or d ''paying_players'' (PyInt 2)) of
          (PyIso a, PyIso b, PyInt n, PyFloat x, PyBool m, PyInt pl, PyInt mp, PyInt pp) \<Rightarrow>
            Inr \<lparr>start_str = a, end_str = b, seconds = n, price = x, member_flag = m,
                 players = pl, member_players = mp, paying_players = pp\<rparr>
        | _ \<Rightarrow> Inl Untyped)"

fun sessions_from :: "py list \<Rightarrow> error + Session list" where
  "sessions_from [] = Inr []"
| "sessions_from (PyDict s # ss) =
     (case Session_kwargs (session_data_of s) of
        Inl e \<Rightarrow> Inl e
      | Inr x \<Rightarrow> (case sessions_from ss of Inl e \<Rightarrow> Inl e | Inr xs \<Rightarrow> Inr (x # xs)))"
| "sessions_from (_ # ss) = Inl Untyped"

definition from_json :: "pydict \<Rightarrow> error + Table" where
  "from_json d =
     (case get_or d ''history'' (PyList []) of
        PyList ss \<Rightarrow>
          (case sessions_from ss of
             Inl e \<Rightarrow> Inl e
           | Inr history' \<Rightarrow>
               (case map_of d ''name'' of
                  None \<Rightarrow> Inl KeyError
                | Some n \<Rightarrow>
                    (case map_of d ''price_per_hour'' of
                       None \<Rightarrow> Inl KeyError
                     | Some p \<Rightarrow>
                         (case (n, p, get_or d ''table_type'' (PyStr ''Billiard'')) of
                            (PyStr n', PyFloat p', PyStr ty) \<Rightarrow>
                              Inr ((new_Table n' p' ty)\<lparr>history := history'\<rparr>)
                          | _ \<Rightarrow> Inl Untyped))))
      | _ \<Rightarrow> Inl Untyped)"

subsection \<open>Tables used as examples\<close>

definition table1 :: Table where
  "table1 = new_Table ''Table 1'' 10 ''Billiard''"

section \<open>Properties\<close>

lemmas timer_defs = start_def pause_def resume_def stop_def total_secs_at_def price_at_def
lemmas clock_defs = secsTo_def addSecs_def toString_def
lemmas example_defs = table1_def new_Table_def

subsection \<open>Rounding\<close>

lemma round_half_even_nearest:
  "\<bar>x - of_int (round_half_even x)\<bar> < 1 / 2 \<or>
   \<bar>x - of_int (round_half_even x)\<bar> = 1 / 2 \<and> even (round_half_even x)"
proof -
  define f where "f = \<lfloor>x\<rfloor>"
  define d where "d = x - of_int f"
  have d: "0 \<le> d" "d < 1" unfolding d_def f_def by linarith+
  have r: "round_half_even x =
           (if d < 1 / 2 then f else if 1 / 2 < d then f + 1 else if even f then f else f + 1)"
    unfolding round_half_even_def Let_def f_def [symmetric] d_def [symmetric] ..
  have down: "\<bar>x - of_int f\<bar> = d" using d by (simp add: d_def)
  have up: "\<bar>x - of_int (f + 1)\<bar> = 1 - d" using d by (simp add: d_def)
  consider "d < 1 / 2" | "1 / 2 < d" | "d = 1 / 2" "even f" | "d = 1 / 2" "odd f"
    by linarith
  then show ?thesis
  proof cases
    case 1
    with r have "round_half_even x = f" by simp
    with down 1 show ?thesis by simp
  next
    case 2
    with r have "round_half_even x = f + 1" by simp
    with up 2 show ?thesis by simp
  next
    case 3
    with r have "round_half_even x = f" by simp
    with down 3 show ?thesis by simp
  next
    case 4
    with r have "round_half_even x = f + 1" by simp
    with up 4 show ?thesis by simp
  qed
qed

lemma round_places_nearest: "nearest_hundredth x (round_half_even (x * 10 ^ 2))"
  using round_half_even_nearest [of "x * 100"]
  by (simp add: nearest_hundredth_def mult.commute)

text \<open>The exponent that \<open>ilog2\<close> finds is the one of the number.\<close>

lemma pow_le_of_int: "2 ^ k \<le> (n::int) \<Longrightarrow> (2::real) ^ k \<le> of_int n"
proof -
  assume "2 ^ k \<le> n"
  then have "(of_int (2 ^ k) :: real) \<le> of_int n" by (simp only: of_int_le_iff)
  then show ?thesis by simp
qed

lemma of_int_lt_pow: "(n::int) < 2 ^ k \<Longrightarrow> of_int n + 1 \<le> (2::real) ^ k"
proof -
  assume "n < 2 ^ k"
  then have "n + 1 \<le> 2 ^ k" by simp
  then have "(of_int (n + 1) :: real) \<le> of_int (2 ^ k)" by (simp only: of_int_le_iff)
  then show ?thesis by simp
qed

lemma ilog2_bounds:
  assumes "0 < x"
  shows "pow2 (ilog2 x) \<le> x \<and> x < pow2 (ilog2 x + 1)"
proof (cases "1 \<le> x")
  case True
  define n where "n = \<lfloor>x\<rfloor>"
  have n: "0 < n" "of_int n \<le> x" "x < of_int n + 1"
    unfolding n_def using True by linarith+
  from bitlen_bounds [OF n(1)]
  have lo: "2 ^ nat (bitlen n - 1) \<le> n" and hi: "n < 2 ^ nat (bitlen n)" by simp_all
  have b: "1 \<le> bitlen n" using n(1) by (simp add: bitlen_alt_def)
  have e: "ilog2 x = bitlen n - 1" using True by (simp add: ilog2_def n_def)
  have "pow2 (ilog2 x) = 2 ^ nat (bitlen n - 1)" using b by (simp add: e pow2_def)
  moreover have "pow2 (ilog2 x + 1) = 2 ^ nat (bitlen n)" using b by (simp add: e pow2_def)
  ultimately show ?thesis
    using pow_le_of_int [OF lo] of_int_lt_pow [OF hi] n by linarith
next
  case False
  define m where "m = \<lceil>1 / x\<rceil> - 1"
  have inv: "1 < 1 / x" using False assms by simp
  have m: "0 < m" "of_int m < 1 / x" "1 / x \<le> of_int m + 1"
    unfolding m_def using inv by linarith+
  from bitlen_bounds [OF m(1)]
  have lo: "2 ^ nat (bitlen m - 1) \<le> m" and hi: "m < 2 ^ nat (bitlen m)" by simp_all
  have b: "1 \<le> bitlen m" using m(1) by (simp add: bitlen_alt_def)
  have e: "ilog2 x = - bitlen m" using False by (simp add: ilog2_def m_def)
  have up: "1 / x \<le> 2 ^ nat (bitlen m)" using m(3) of_int_lt_pow [OF hi] by linarith
  have down: "2 ^ nat (bitlen m - 1) < 1 / x" using m(2) pow_le_of_int [OF lo] by linarith
  have l: "1 / 2 ^ nat (bitlen m) \<le> x"
    using up assms by (simp add: field_simps)
  have u: "x < 1 / 2 ^ nat (bitlen m - 1)"
    using down assms by (simp add: field_simps)
  have p1: "pow2 (ilog2 x) = 1 / 2 ^ nat (bitlen m)" using b by (simp add: e pow2_def)
  have p2: "pow2 (ilog2 x + 1) = 1 / 2 ^ nat (bitlen m - 1)"
  proof (cases "bitlen m = 1")
    case True
    then show ?thesis by (simp add: e pow2_def)
  next
    case False
    with b have "- bitlen m + 1 < 0" by simp
    moreover have "nat (- (- bitlen m + 1)) = nat (bitlen m - 1)" by simp
    ultimately show ?thesis by (simp add: e pow2_def)
  qed
  show ?thesis using l u p1 p2 by simp
qed

text \<open>
  \<open>rnd64 x\<close> is a multiple of the step at \<open>x\<close> within half a step of \<open>x\<close>. The float
  that Python writes \<^verbatim>\<open>0.1\<close> is the fraction that \<^verbatim>\<open>(0.1).as_integer_ratio()\<close> gives.
\<close>

lemma pow2_pos: "0 < pow2 i"
  by (simp add: pow2_def)

lemma rnd64_error:
  "\<bar>rnd64 x - x\<bar> \<le> pow2 (max (ilog2 \<bar>x\<bar>) (- 1022) - 52) / 2"
proof (cases "x = 0")
  case True
  then show ?thesis using pow2_pos [of "max (ilog2 \<bar>x\<bar>) (- 1022) - 52"]
    by (simp add: rnd64_def)
next
  case False
  define q where "q = pow2 (max (ilog2 \<bar>x\<bar>) (- 1022) - 52)"
  have q: "0 < q" by (simp add: q_def pow2_pos)
  have r: "rnd64 x = of_int (round_half_even (x / q)) * q"
    using False by (simp add: rnd64_def Let_def q_def)
  have "\<bar>x / q - of_int (round_half_even (x / q))\<bar> \<le> 1 / 2"
    using round_half_even_nearest [of "x / q"] by linarith
  then have "\<bar>x / q - of_int (round_half_even (x / q))\<bar> * q \<le> 1 / 2 * q"
    using q by (simp only: mult_le_cancel_right_pos)
  moreover have "\<bar>x / q - of_int (round_half_even (x / q))\<bar> * q =
                 \<bar>x - of_int (round_half_even (x / q)) * q\<bar>"
  proof -
    have "\<bar>x / q - of_int (round_half_even (x / q))\<bar> * \<bar>q\<bar> =
          \<bar>(x / q - of_int (round_half_even (x / q))) * q\<bar>"
      by (simp only: abs_mult)
    also have "(x / q - of_int (round_half_even (x / q))) * q =
               x - of_int (round_half_even (x / q)) * q"
      using q by (simp add: left_diff_distrib)
    finally show ?thesis using q by simp
  qed
  ultimately have "\<bar>x - rnd64 x\<bar> \<le> q / 2" by (simp add: r)
  then show ?thesis by (simp add: q_def abs_minus_commute)
qed

lemma rnd64_tenth: "rnd64 (1 / 10) = 3602879701896397 / 2 ^ 55"
  by code_simp

subsection \<open>One hour on table 1 for a single paying player\<close>

lemma stop_example:
  "stop 3600000 (start 0 0 1 table1) =
    (Inr \<lparr>start_str = ISODate (- 3600), end_str = ISODate 3600, seconds = 3600, price = 5,
          member_flag = False, players = 1, member_players = 0, paying_players = 1\<rparr>,
     table1\<lparr>history :=
       [\<lparr>start_str = ISODate (- 3600), end_str = ISODate 3600, seconds = 3600, price = 5,
         member_flag = False, players = 1, member_players = 0, paying_players = 1\<rparr>]\<rparr>)"
  by code_simp

subsection \<open>The recorded start of a session\<close>

text \<open>
  When a paused table is stopped, the instant recorded as the start is the duration
  before the instant recorded as the end. When a running table is stopped, \<^verbatim>\<open>stop\<close>
  subtracts the whole duration from the instant of the last start or resume, not from
  the end: the recorded start is too early by the seconds between that instant and the
  end. Both are statements about the instants that the two texts name.
\<close>

lemma stop_paused_start_str:
  assumes "paused self" and "start_time self = None" and "fst (stop now self) = Inr s"
  shows "secs_of (start_str s) = secs_of (end_str s) - seconds s"
  using assms by (auto simp: timer_defs clock_defs Let_def)

lemma stop_running_start_str_shifted:
  assumes "\<not> paused self" and "start_time self = Some st" and "fst (stop now self) = Inr s"
  shows "secs_of (start_str s) = secs_of (end_str s) - seconds s - (now div 1000 - st div 1000)"
  using assms by (auto simp: timer_defs clock_defs Let_def)

text \<open>
  Claim C1 (the session that \<^verbatim>\<open>stop\<close> returns has its start at its end less its
  duration) fails on a running table. Table 1 is started at second 100 and stopped at
  second 160: the session lasts 60 seconds and ends at second 160, and its start is
  recorded as second 40, not second 100. (Its price is the float 0.08.)
\<close>

theorem stop_running_start_str:
  "fst (stop 160000 (start 100000 0 2 table1)) =
     Inr \<lparr>start_str = ISODate 40, end_str = ISODate 160, seconds = 60,
          price = rnd64 (8 / 100),
          member_flag = False, players = 2, member_players = 0, paying_players = 2\<rparr>"
  by code_simp

subsection \<open>Starting a table that has a session\<close>

lemma start_running_noop: "start_time self \<noteq> None \<Longrightarrow> start now m p self = self"
  by (auto simp: start_def)

text \<open>
  Claim C2 (\<^verbatim>\<open>start\<close> changes nothing on a table that is running or paused) holds on a
  running table and fails on a paused one, whose \<^verbatim>\<open>start_time\<close> is \<^verbatim>\<open>None\<close>: the guard
  of \<^verbatim>\<open>start\<close> lets it through. Table 1, paused after 60 seconds with three players,
  is started again at second 90: the 60 seconds and the player counts are lost and the
  table runs.
\<close>

theorem start_on_paused_restarts:
  "pause 60000 (start 0 1 2 table1) =
     table1\<lparr>paused_seconds := 60, paused := True, current_players := 3,
            current_member_players := 1, current_paying_players := 2\<rparr> \<and>
   start 90000 0 1 (pause 60000 (start 0 1 2 table1)) =
     table1\<lparr>start_time := Some 90000, paused_seconds := 0, paused := False,
            current_players := 1, current_member_players := 0, current_paying_players := 1\<rparr>"
  by (simp add: example_defs timer_defs clock_defs)

subsection \<open>The price\<close>

lemma py_round_0: "py_round 0 n = 0"
  by (simp add: py_round_def round_places_def round_half_even_def rnd64_def)

lemma stop_Inr:
  assumes "fst (stop now self) = Inr s"
  shows "seconds s = total_secs_at now self"
    and "price s = py_round (price_at (total_secs_at now self) self) 2"
proof -
  from assms have "\<not> (start_time self = None \<and> \<not> paused self)"
    by (auto simp: stop_def split: if_splits)
  with assms show "seconds s = total_secs_at now self"
    and "price s = py_round (price_at (total_secs_at now self) self) 2"
    by (auto simp: stop_def Let_def)
qed

lemma price_at_spec_charge64:
  assumes "0 \<le> current_paying_players self"
  shows "price_at e self =
         spec_charge64 e (price_per_hour self) (nat (current_paying_players self))"
  using assms
  by (auto simp: price_at_def spec_charge64_def SINGLE_PLAYER_MULTIPLIER_def Let_def)

text \<open>
  Claim C3, amended. The price of the session that \<^verbatim>\<open>stop\<close> returns follows the
  specification's pricing rule of the elapsed seconds, the table's hourly rate and
  the number of paying players, whenever that number is not negative, with every
  operation of the rule an operation on doubles: nothing for no paying player, half
  the cost for one, the cost divided by their number for two or more. The price is
  that amount rounded to two places, to the nearest hundredth and to the even one of
  two equally near, as the double nearest to that decimal number. The number of member
  players does not occur in it.
\<close>

theorem stop_price_rounded:
  assumes "0 \<le> current_paying_players self" and "fst (stop now self) = Inr s"
  shows "seconds s = total_secs_at now self \<and>
         (\<exists>k. nearest_hundredth
                (spec_charge64 (seconds s) (price_per_hour self)
                   (nat (current_paying_players self))) k \<and>
              price s = rnd64 (of_int k / 100)) \<and>
         (current_paying_players self = 0 \<longrightarrow> price s = 0)"
proof -
  note s = stop_Inr [OF assms(2)]
  define x where
    "x = spec_charge64 (seconds s) (price_per_hour self) (nat (current_paying_players self))"
  have raw: "price_at (total_secs_at now self) self = x"
    using price_at_spec_charge64 [OF assms(1)] s(1) by (simp add: x_def)
  have p: "price s = rnd64 (of_int (round_half_even (x * 10 ^ 2)) / 100)"
    using s(2) raw by (simp add: py_round_def round_places_def)
  have "nearest_hundredth x (round_half_even (x * 10 ^ 2))"
    by (rule round_places_nearest)
  with p have "\<exists>k. nearest_hundredth x k \<and> price s = rnd64 (of_int k / 100)"
    by blast
  moreover have "current_paying_players self = 0 \<longrightarrow> price s = 0"
    using s(2) by (simp add: price_at_def py_round_0)
  ultimately show ?thesis using s(1) by (simp add: x_def)
qed

theorem stop_price_rounded_witness:
  "(0::int) \<le> current_paying_players (start 0 0 1 table1) \<and>
   fst (stop 3600000 (start 0 0 1 table1)) =
     Inr \<lparr>start_str = ISODate (- 3600), end_str = ISODate 3600, seconds = 3600, price = 5,
          member_flag = False, players = 1, member_players = 0, paying_players = 1\<rparr> \<and>
   (\<exists>k. nearest_hundredth (spec_charge64 3600 10 1) k \<and> 5 = rnd64 (of_int k / 100))"
proof -
  have a: "0 \<le> current_paying_players (start 0 0 1 table1)"
    by (simp add: example_defs start_def)
  have b: "fst (stop 3600000 (start 0 0 1 table1)) =
     Inr \<lparr>start_str = ISODate (- 3600), end_str = ISODate 3600, seconds = 3600, price = 5,
          member_flag = False, players = 1, member_players = 0, paying_players = 1\<rparr>"
    by (simp add: stop_example)
  from stop_price_rounded [OF a b] show ?thesis
    using a b by (simp add: example_defs start_def)
qed

text \<open>
  The claim as it stands, with the rule on decimal numbers, fails by a cent where the
  exact amount lies halfway between two hundredths. For 54 seconds at 10.0 an hour and
  two paying players the rule gives 0.075, which rounds to 0.08; the doubles of
  \<^verbatim>\<open>stop\<close> give a number just below 0.075, and the price is the float 0.07.
\<close>

theorem stop_price_not_decimal:
  "fst (stop 54000 (start 0 0 2 table1)) =
     Inr \<lparr>start_str = ISODate (- 54), end_str = ISODate 54, seconds = 54,
          price = rnd64 (7 / 100),
          member_flag = False, players = 2, member_players = 0, paying_players = 2\<rparr> \<and>
   spec_price 54 10 2 = 8 / 100 \<and>
   rnd64 (7 / 100) < 71 / 1000"
  by code_simp

text \<open>The examples of the specification: an hour at 10.0 for one and for two paying
  players, and no paying player.\<close>

lemma stop_price_examples:
  "price (projr (fst (stop 3600000 (start 0 0 1 table1)))) = 5"
  "price (projr (fst (stop 3600000 (start 0 0 2 table1)))) = 5"
  "price (projr (fst (stop 3600000 (start 0 2 0 table1)))) = 0"
  by code_simp+

lemma spec_price_examples:
  "spec_price e r 0 = 0" "spec_price 3600 10 1 = 5" "spec_price 3600 10 2 = 5"
  by (simp_all add: spec_price_def round_places_def round_half_even_def Let_def)

subsection \<open>Stopping an idle table\<close>

text \<open>
  Claim C4: \<^verbatim>\<open>stop\<close> raises exactly when the table is idle (no start time, not paused);
  the error is the \<^verbatim>\<open>RuntimeError\<close>, and the table, its history included, is left as it
  was.
\<close>

theorem stop_raises_iff_idle:
  "(isl (fst (stop now self)) \<longleftrightarrow> start_time self = None \<and> \<not> paused self) \<and>
   (isl (fst (stop now self)) \<longrightarrow> stop now self = (Inl RuntimeError, self))"
  by (simp add: stop_def Let_def)

theorem stop_raises_iff_idle_witness:
  "isl (fst (stop 0 table1)) \<and> stop 0 table1 = (Inl RuntimeError, table1)"
  using stop_raises_iff_idle [of 0 table1]
  by (simp add: example_defs)

subsection \<open>The history\<close>

text \<open>
  Claim C7: \<^verbatim>\<open>start\<close>, \<^verbatim>\<open>pause\<close> and \<^verbatim>\<open>resume\<close> leave the history as it is in every
  state, and a \<^verbatim>\<open>stop\<close> that returns a session leaves the old history followed by that
  one session.
\<close>

theorem history_append_only:
  "history (start now m p self) = history self \<and>
   history (pause now self) = history self \<and>
   history (resume now self) = history self \<and>
   (\<forall>s. fst (stop now self) = Inr s \<longrightarrow> history (snd (stop now self)) = history self @ [s])"
  by (auto simp: start_def pause_def resume_def stop_def Let_def split: option.splits)

theorem history_append_only_witness:
  "fst (stop 3600000 (start 0 0 1 table1)) =
     Inr \<lparr>start_str = ISODate (- 3600), end_str = ISODate 3600, seconds = 3600, price = 5,
          member_flag = False, players = 1, member_players = 0, paying_players = 1\<rparr> \<and>
   history (snd (stop 3600000 (start 0 0 1 table1))) =
     history (start 0 0 1 table1) @
       [\<lparr>start_str = ISODate (- 3600), end_str = ISODate 3600, seconds = 3600, price = 5,
          member_flag = False, players = 1, member_players = 0, paying_players = 1\<rparr>]"
  using history_append_only [of 3600000 0 1 "start 0 0 1 table1"] stop_example
  by simp

subsection \<open>Player counts are not checked\<close>

text \<open>
  Claim C10: \<^verbatim>\<open>start\<close> on an idle table takes any two integers, negative ones too, and
  stores them as they are; and with \<open>- 1\<close> paying players, an hour on table 1 at 10 an
  hour is charged \<open>- 10\<close>.
\<close>

theorem start_stores_counts_unchecked:
  "(start_time self = None \<longrightarrow>
      start_time (start now m p self) = Some now \<and>
      current_member_players (start now m p self) = m \<and>
      current_paying_players (start now m p self) = p \<and>
      current_players (start now m p self) = m + p) \<and>
   (\<exists>s. fst (stop 3600000 (start 0 0 (- 1) table1)) = Inr s \<and>
        paying_players s = - 1 \<and> price s = - 10)"
proof -
  have "fst (stop 3600000 (start 0 0 (- 1) table1)) =
     Inr \<lparr>start_str = ISODate (- 3600), end_str = ISODate 3600, seconds = 3600,
          price = - 10, member_flag = False, players = - 1, member_players = 0,
          paying_players = - 1\<rparr>"
    by code_simp
  then show ?thesis by (simp add: start_def)
qed

theorem start_stores_counts_unchecked_witness:
  "start_time table1 = None \<and>
   current_member_players (start 7 (- 3) 0 table1) = - 3 \<and>
   current_paying_players (start 7 (- 3) 0 table1) = 0 \<and>
   current_players (start 7 (- 3) 0 table1) = - 3"
  using start_stores_counts_unchecked [of table1 7 "- 3" 0]
  by (simp add: example_defs)

subsection \<open>Time while paused does not count\<close>

lemma toggles_running:
  assumes "start_time self = Some s" and "\<not> paused self"
  shows "start_time (toggles prs self) = Some (last_resume s prs) \<and>
         \<not> paused (toggles prs self) \<and>
         paused_seconds (toggles prs self) + secsTo (last_resume s prs) e =
           paused_seconds self + running_secs s prs e"
  using assms
proof (induction prs arbitrary: self s)
  case Nil
  then show ?case by (simp add: last_resume_def)
next
  case (Cons pr prs)
  obtain p r where pr: "pr = (p, r)" by (cases pr)
  let ?t = "resume r (pause p self)"
  have st: "start_time ?t = Some r" and np: "\<not> paused ?t"
    and ps: "paused_seconds ?t = paused_seconds self + secsTo s p"
    using Cons.prems by (simp_all add: pause_def resume_def)
  from Cons.IH [OF st np] show ?case
    by (auto simp: pr ps last_resume_def)
qed

text \<open>
  Claim C5, amended. A session is started on an idle table, paused and resumed any
  number of times at any clock readings, perhaps paused a last time, and stopped. Its
  duration is the sum over the intervals in which the table ran of the whole seconds
  that \<^verbatim>\<open>secsTo\<close> counts in each; the time between a pause and the next resume, or the
  stop, adds nothing.
\<close>

theorem run_session_seconds:
  assumes "is_idle self"
  shows "\<exists>s. fst (run_session t0 m p prs last_pause t_stop self) = Inr s \<and>
             seconds s =
               running_secs t0 prs (case last_pause of None \<Rightarrow> t_stop | Some lp \<Rightarrow> lp)"
proof -
  let ?t = "start t0 m p self"
  have st: "start_time ?t = Some t0" and np: "\<not> paused ?t" and ps: "paused_seconds ?t = 0"
    using assms by (simp_all add: is_idle_def start_def)
  note run = toggles_running [OF st np, of prs]
  show ?thesis
  proof (cases last_pause)
    case None
    then show ?thesis
      using run [of t_stop] ps
      by (simp add: run_session_def stop_def total_secs_at_def Let_def)
  next
    case (Some lp)
    then show ?thesis
      using run [of lp] ps
      by (simp add: run_session_def stop_def pause_def total_secs_at_def Let_def)
  qed
qed

theorem run_session_seconds_witness:
  "is_idle table1 \<and>
   (\<exists>s. fst (run_session 0 0 2 [(60000, 90000)] (Some 150000) 200000 table1) = Inr s \<and>
        seconds s = 120)"
  using run_session_seconds [of table1 0 0 2 "[(60000, 90000)]" "Some 150000" 200000]
  by (simp add: is_idle_def example_defs secsTo_def)

text \<open>
  The claim as it stands, with the length of an interval its time on the clock, fails
  where the readings are not on whole seconds: the table below runs from 0 to 1.5 s and
  from 2 s to 3.5 s, three seconds in all, and the session lasts 2 seconds, one for each
  interval.
\<close>

theorem run_session_drops_fractions:
  "fst (run_session 0 0 2 [(1500, 2000)] None 3500 table1) =
     Inr \<lparr>start_str = ISODate 0, end_str = ISODate 3, seconds = 2, price = 0,
          member_flag = False, players = 2, member_players = 0, paying_players = 2\<rparr> \<and>
   running_msecs 0 [(1500, 2000)] 3500 = 3000"
  by code_simp

text \<open>With every reading on a whole second, the two measures agree.\<close>

lemma secsTo_whole: "1000 dvd a \<Longrightarrow> 1000 dvd b \<Longrightarrow> 1000 * secsTo a b = b - a"
  by (auto simp: secsTo_def)

lemma running_secs_whole:
  "1000 dvd s \<Longrightarrow> 1000 dvd e \<Longrightarrow> \<forall>pr \<in> set prs. 1000 dvd fst pr \<and> 1000 dvd snd pr \<Longrightarrow>
   1000 * running_secs s prs e = running_msecs s prs e"
proof (induction prs arbitrary: s)
  case Nil
  then show ?case by (simp add: secsTo_whole)
next
  case (Cons pr prs)
  then show ?case by (cases pr) (simp add: secsTo_whole distrib_left)
qed

subsection \<open>The states of a table\<close>

lemma secsTo_nonneg: "a \<le> b \<Longrightarrow> 0 \<le> secsTo a b"
  by (simp add: secsTo_def)

lemma apply_op_consistent:
  "(paused self \<longrightarrow> start_time self = None) \<Longrightarrow>
   (paused (apply_op ev self) \<longrightarrow> start_time (apply_op ev self) = None)"
  by (cases ev; cases "snd ev")
     (auto simp: start_def pause_def resume_def stop_def Let_def split: option.splits)

lemma run_consistent:
  "(paused self \<longrightarrow> start_time self = None) \<Longrightarrow>
   (paused (run evs self) \<longrightarrow> start_time (run evs self) = None)"
  unfolding run_def
proof (induction evs arbitrary: self)
  case Nil
  then show ?case by simp
next
  case (Cons ev evs)
  from Cons.IH [OF apply_op_consistent [OF Cons.prems]] show ?case by simp
qed

text \<open>While the clock does not go back, a start time is never after the next reading.\<close>

lemma apply_op_paused_seconds:
  assumes "0 \<le> paused_seconds self" and "\<forall>st. start_time self = Some st \<longrightarrow> st \<le> fst ev"
  shows "0 \<le> paused_seconds (apply_op ev self) \<and>
         (\<forall>st. start_time (apply_op ev self) = Some st \<longrightarrow> st \<le> fst ev)"
  using assms
  by (cases ev; cases "snd ev")
     (auto simp: start_def pause_def resume_def stop_def Let_def secsTo_nonneg
           split: option.splits)

lemma run_paused_seconds:
  assumes "sorted (map fst evs)" and "0 \<le> paused_seconds self"
    and "\<forall>st. start_time self = Some st \<longrightarrow> (\<forall>ev \<in> set evs. st \<le> fst ev)"
  shows "0 \<le> paused_seconds (run evs self)"
  using assms unfolding run_def
proof (induction evs arbitrary: self)
  case Nil
  then show ?case by simp
next
  case (Cons ev evs)
  have later: "\<forall>e \<in> set evs. fst ev \<le> fst e" and sorted: "sorted (map fst evs)"
    using Cons.prems(1) by auto
  have "\<forall>st. start_time self = Some st \<longrightarrow> st \<le> fst ev"
    using Cons.prems(3) by simp
  from apply_op_paused_seconds [OF Cons.prems(2) this]
  have ps: "0 \<le> paused_seconds (apply_op ev self)"
    and st: "\<forall>st. start_time (apply_op ev self) = Some st \<longrightarrow> st \<le> fst ev"
    by simp_all
  have "\<forall>st. start_time (apply_op ev self) = Some st \<longrightarrow> (\<forall>e \<in> set evs. st \<le> fst e)"
    using st later by force
  from Cons.IH [OF sorted ps this] show ?case by simp
qed

text \<open>
  Claim C8, amended. After any sequence of calls on a table that was idle with no
  seconds counted, at any clock readings: a paused table has no start time, so the
  table is in one of the three states; and if no reading was earlier than the one
  before it, the seconds counted so far are not negative.
\<close>

theorem run_invariant:
  assumes "is_idle self" and "paused_seconds self = 0"
  shows "(paused (run evs self) \<longrightarrow> start_time (run evs self) = None) \<and>
         state_of (run evs self) \<noteq> None \<and>
         (sorted (map fst evs) \<longrightarrow> 0 \<le> paused_seconds (run evs self))"
proof -
  have c: "paused (run evs self) \<longrightarrow> start_time (run evs self) = None"
    using assms(1) by (intro run_consistent) (simp add: is_idle_def)
  then have "state_of (run evs self) \<noteq> None"
    by (auto simp: state_of_def split: option.splits bool.splits)
  moreover have "sorted (map fst evs) \<longrightarrow> 0 \<le> paused_seconds (run evs self)"
    using assms by (auto intro!: run_paused_seconds simp: is_idle_def)
  ultimately show ?thesis using c by simp
qed

theorem run_invariant_witness:
  "is_idle table1 \<and> paused_seconds table1 = 0 \<and>
   sorted (map fst [(0::int, Start 0 2), (60000, Pause)]) \<and>
   paused (run [(0, Start 0 2), (60000, Pause)] table1) \<and>
   start_time (run [(0, Start 0 2), (60000, Pause)] table1) = None \<and>
   state_of (run [(0, Start 0 2), (60000, Pause)] table1) \<noteq> None \<and>
   0 \<le> paused_seconds (run [(0, Start 0 2), (60000, Pause)] table1)"
proof -
  have a: "is_idle table1" and b: "paused_seconds table1 = 0"
    by (simp_all add: is_idle_def example_defs)
  have c: "sorted (map fst [(0::int, Start 0 2), (60000, Pause)])" by simp
  have d: "paused (run [(0, Start 0 2), (60000, Pause)] table1)"
    by (simp add: run_def example_defs start_def pause_def)
  from run_invariant [OF a b, of "[(0, Start 0 2), (60000, Pause)]"] a b c d
  show ?thesis by simp
qed

text \<open>
  The claim as it stands fails when the clock is set back during a session: table 1 is
  started at second 100 and paused when the clock reads second 50.
\<close>

theorem paused_seconds_negative:
  "paused_seconds (run [(100000, Start 0 2), (50000, Pause)] table1) = - 50"
  by (simp add: run_def example_defs start_def pause_def secsTo_def)

subsection \<open>What is written to the file and what is read back\<close>

lemma Session_roundtrip: "Session_kwargs (session_data_of (asdict_Session s)) = Inr s"
  by (simp add: Session_kwargs_def session_data_of_def asdict_Session_def has_key_def get_or_def
      Session_fields_def Let_def)

lemma sessions_roundtrip:
  "sessions_from (map (\<lambda>s. PyDict (asdict_Session s)) hs) = Inr hs"
  by (induction hs) (simp_all add: Session_roundtrip)

lemma popped_keys_present:
  "list_all (has_key (asdict_Table self))
     [''start_time'', ''current_players'', ''current_member_players'', ''current_paying_players'']"
  by (simp add: asdict_Table_def has_key_def)

lemma to_json_eq:
  "to_json self =
     [(''name'', PyStr (name self)),
      (''price_per_hour'', PyFloat (price_per_hour self)),
      (''table_type'', PyStr (table_type self)),
      (''history'', PyList (map (\<lambda>s. PyDict (asdict_Session s)) (history self))),
      (''paused_seconds'', PyInt (paused_seconds self)),
      (''paused'', PyBool (paused self))]"
  by (simp add: to_json_def asdict_Table_def Let_def)

lemma from_json_to_json:
  "from_json (to_json self) =
     Inr ((new_Table (name self) (price_per_hour self) (table_type self))
            \<lparr>history := history self\<rparr>)"
  by (simp add: to_json_eq from_json_def get_or_def sessions_roundtrip)

text \<open>A session stored before the player counts existed, for a member.\<close>

lemma legacy_member:
  "Session_kwargs (session_data_of
     [(''start'', PyIso a), (''end'', PyIso b), (''seconds'', PyInt n), (''price'', PyFloat x),
      (''member'', PyBool True)]) =
   Inr \<lparr>start_str = a, end_str = b, seconds = n, price = x, member_flag = True,
        players = 2, member_players = 2, paying_players = 0\<rparr>"
  by (simp add: Session_kwargs_def session_data_of_def has_key_def get_or_def
      Session_fields_def Let_def)

text \<open>
  \<^verbatim>\<open>to_json\<close> drops the start time and the three current player counts and leaves
  \<^verbatim>\<open>paused_seconds\<close> and \<^verbatim>\<open>paused\<close> in the dictionary. \<^verbatim>\<open>from_json\<close> reads neither of
  them: what it reads back from the dictionary of any table is an idle table with no
  seconds counted and the same history.
\<close>

lemma to_json_keys_and_reload:
  "set (map fst (to_json self)) =
     {''name'', ''price_per_hour'', ''table_type'', ''history'', ''paused_seconds'', ''paused''} \<and>
   (\<exists>t. from_json (to_json self) = Inr t \<and> is_idle t \<and> paused_seconds t = 0 \<and>
        history t = history self)"
proof -
  have "set (map fst (to_json self)) =
     {''name'', ''price_per_hour'', ''table_type'', ''history'', ''paused_seconds'', ''paused''}"
    by (simp add: to_json_eq)
  moreover have "\<exists>t. from_json (to_json self) = Inr t \<and> is_idle t \<and> paused_seconds t = 0 \<and>
        history t = history self"
    by (simp add: from_json_to_json is_idle_def new_Table_def)
  ultimately show ?thesis by simp
qed

text \<open>
  Claim C6 (the dictionary has the four keys name, price per hour, table type and
  history and nothing of the session in progress, and a table read back is idle) fails
  in its first part. \<^verbatim>\<open>to_json\<close> removes the fields of the session in progress one by
  one, and misses two of them: for table 1 paused after 60 seconds, the dictionary
  holds the 60 seconds and the pause.
\<close>

theorem to_json_keeps_paused:
  "to_json (pause 60000 (start 0 0 2 table1)) =
     [(''name'', PyStr ''Table 1''), (''price_per_hour'', PyFloat 10),
      (''table_type'', PyStr ''Billiard''), (''history'', PyList []),
      (''paused_seconds'', PyInt 60), (''paused'', PyBool True)]"
  by (simp add: to_json_eq example_defs start_def pause_def secsTo_def)

text \<open>
  Claim C9: reading back the dictionary written for a table, whatever its history,
  gives a table with the same history, session by session and field by field, and the
  same name, price per hour and table type.
\<close>

theorem from_json_to_json_roundtrip:
  "\<exists>t. from_json (to_json self) = Inr t \<and> history t = history self \<and> name t = name self \<and>
       price_per_hour t = price_per_hour self \<and> table_type t = table_type self"
  by (simp add: from_json_to_json new_Table_def)

end
